theory Spec2Isabelle
  imports Main "HOL-Library.AList" "HOL-Library.Char_ord" "HOL-Library.List_Lexorder"
    "HOL-Library.Product_Lexorder"
begin

section \<open>JavaScript values\<close>

text \<open>
  The values the storage layer moves around. \<open>JDate t\<close> is a \<open>Date\<close> at \<open>t\<close>
  milliseconds since the epoch, \<open>JDateStr s\<close> the \<open>Date\<close> that \<open>new Date(s)\<close> builds
  from the string \<open>s\<close> (its instant is not computed here), \<open>JTimestamp t\<close> the
  document store's own timestamp object. An object is the list of its own properties, in
  insertion order.
\<close>

datatype jsval =
    JUndefined
  | JNull
  | JBool bool
  | JNum int
  | JStr string
  | JDate int
  | JDateStr string
  | JTimestamp int
  | JArr "jsval list"
  | JObj "(string \<times> jsval) list"

type_synonym jsobj = "(string \<times> jsval) list"

text \<open>Property read \<open>obj.k\<close>: a missing property reads as \<open>undefined\<close>.\<close>

definition get_prop :: "jsobj \<Rightarrow> string \<Rightarrow> jsval" where
  "get_prop obj k = (case map_of obj k of None \<Rightarrow> JUndefined | Some v \<Rightarrow> v)"

text \<open>
  \<open>{ ...obj, k: v }\<close>: an existing property keeps its place and takes the new value, a
  new one is appended.
\<close>

definition set_prop :: "jsobj \<Rightarrow> string \<Rightarrow> jsval \<Rightarrow> jsobj" where
  "set_prop obj k v = AList.update k v obj"

text \<open>
  A list denotes the object in which the first pair of a key counts (\<open>get_prop\<close> and
  \<open>set_prop\<close> read and write that pair); \<open>own\<close> is the list without the pairs that do not
  count. For an object as JavaScript builds it, no key occurs twice and \<open>own obj = obj\<close>.
\<close>

definition own :: "jsobj \<Rightarrow> jsobj" where
  "own obj = AList.clearjunk obj"

text \<open>\<open>{ ...a, ...b }\<close>: the properties of \<open>b\<close> assigned onto \<open>a\<close>, in order.\<close>

definition spread :: "jsobj \<Rightarrow> jsobj \<Rightarrow> jsobj" where
  "spread a b = foldl (\<lambda>acc kv. AList.update (fst kv) (snd kv) acc) a (own b)"

text \<open>\<open>a ?? b\<close>\<close>

definition nullish :: "jsval \<Rightarrow> jsval \<Rightarrow> jsval" where
  "nullish a b = (if a = JUndefined \<or> a = JNull then b else a)"

text \<open>\<open>!v\<close> is \<open>\<not> truthy v\<close>.\<close>

fun truthy :: "jsval \<Rightarrow> bool" where
  "truthy JUndefined = False"
| "truthy JNull = False"
| "truthy (JBool b) = b"
| "truthy (JNum n) = (n \<noteq> 0)"
| "truthy (JStr s) = (s \<noteq> [])"
| "truthy v = True"

text \<open>A value of type \<open>T | undefined\<close> as a property value.\<close>

definition opt :: "jsobj option \<Rightarrow> jsval" where
  "opt v = (case v of None \<Rightarrow> JUndefined | Some obj \<Rightarrow> JObj obj)"

section \<open>Failures\<close>

text \<open>
  What a storage method can throw: \<open>StoreError code\<close> is an error of the document store
  carrying the numeric \<open>code\<close> the methods test; \<open>TypeError\<close> and \<open>InvalidArgument\<close> are
  raised by the runtime and by the store's client before any request; the last four are
  raised by the relational engine and its query builder.
\<close>

datatype error =
    StoreError int
  | TypeError
  | InvalidArgument
  | NoValuesToSet
  | NotNullViolation string
  | UniqueViolation string
  | ForeignKeyViolation string

definition bind_err :: "error + 'a \<Rightarrow> ('a \<Rightarrow> error + 'b) \<Rightarrow> error + 'b" where
  "bind_err r f = (case r of Inl e \<Rightarrow> Inl e | Inr x \<Rightarrow> f x)"

text \<open>
  \<open>Promise.all(xs.map(async x => f x))\<close>: the results in order, or the first failure.
\<close>

fun mapM :: "('a \<Rightarrow> error + 'b) \<Rightarrow> 'a list \<Rightarrow> error + 'b list" where
  "mapM f [] = Inr []"
| "mapM f (x # xs) =
     (case f x of
        Inl e \<Rightarrow> Inl e
      | Inr y \<Rightarrow> (case mapM f xs of Inl e \<Rightarrow> Inl e | Inr ys \<Rightarrow> Inr (y # ys)))"

text \<open>
  \<open>try { body } catch (error) { if (error.code === 5) return dflt; throw error; }\<close>
\<close>

definition catch5 :: "error + 'a \<Rightarrow> 'a \<Rightarrow> error + 'a" where
  "catch5 body dflt =
     (case body of
        Inl (StoreError c) \<Rightarrow> if c = 5 then Inr dflt else Inl (StoreError c)
      | Inl e \<Rightarrow> Inl e
      | Inr x \<Rightarrow> Inr x)"

section \<open>server/firebase-storage.ts: helpers\<close>

text \<open>
  \<open>toDate\<close>. The test \<open>'toDate' in timestamp\<close> throws a \<open>TypeError\<close> on a primitive,
  and calling a \<open>toDate\<close> property that is plain data throws one too.
\<close>

fun toDate :: "jsval \<Rightarrow> error + jsval" where
  "toDate (JDate t) = Inr (JDate t)"
| "toDate (JDateStr s) = Inr (JDateStr s)"
| "toDate (JTimestamp t) = Inr (JDate t)"
| "toDate (JArr xs) = Inr JNull"
| "toDate (JObj kvs) = (if ''toDate'' \<in> fst ` set kvs then Inl TypeError else Inr JNull)"
| "toDate (JStr s) = (if s = [] then Inr JNull else Inr (JDateStr s))"
| "toDate v = (if truthy v then Inl TypeError else Inr JNull)"

text \<open>
  \<open>serializeForFirestore\<close>: drops the properties that hold \<open>undefined\<close>, at every depth.
  A timestamp object of the store is neither a \<open>Date\<close> nor an array, so it is rebuilt from
  its two own properties.
\<close>

fun serializeForFirestore :: "jsval \<Rightarrow> jsval" where
  "serializeForFirestore (JArr xs) = JArr (map serializeForFirestore xs)"
| "serializeForFirestore (JObj kvs) =
     JObj (map (\<lambda>kv. (fst kv, serializeForFirestore (snd kv)))
            (filter (\<lambda>kv. snd kv \<noteq> JUndefined) kvs))"
| "serializeForFirestore (JTimestamp t) =
     JObj [(''_seconds'', JNum (t div 1000)), (''_nanoseconds'', JNum ((t mod 1000) * 1000000))]"
| "serializeForFirestore v = v"

text \<open>The same on the object a method passes in (always an object literal).\<close>

definition serializeObj :: "jsobj \<Rightarrow> jsobj" where
  "serializeObj obj =
     map (\<lambda>kv. (fst kv, serializeForFirestore (snd kv)))
       (filter (\<lambda>kv. snd kv \<noteq> JUndefined) (own obj))"

section \<open>The document store\<close>

text \<open>
  A model of the store behind \<open>getFirestore()\<close>: for every collection name the documents
  it holds (document id and fields), and the error code with which the store rejects every
  request to that collection, if it does. Identifiers are opaque strings.
\<close>

record firestore =
  docs :: "string \<Rightarrow> (string \<times> jsobj) list"
  rejects :: "string \<Rightarrow> int option"

text \<open>On a write the store's client turns every \<open>Date\<close> into a timestamp of its own.\<close>

fun fs_encode :: "jsval \<Rightarrow> jsval" where
  "fs_encode (JDate t) = JTimestamp t"
| "fs_encode (JArr xs) = JArr (map fs_encode xs)"
| "fs_encode (JObj kvs) = JObj (map (\<lambda>kv. (fst kv, fs_encode (snd kv))) kvs)"
| "fs_encode v = v"

definition fs_encode_obj :: "jsobj \<Rightarrow> jsobj" where
  "fs_encode_obj obj = map (\<lambda>kv. (fst kv, fs_encode (snd kv))) obj"

text \<open>\<open>collection(c).doc(i).get()\<close>: \<open>None\<close> when \<open>doc.exists\<close> is false, else \<open>doc.data()\<close>.\<close>

definition fs_doc_get :: "firestore \<Rightarrow> string \<Rightarrow> string \<Rightarrow> error + jsobj option" where
  "fs_doc_get fs c i =
     (case rejects fs c of
        Some e \<Rightarrow> Inl (StoreError e)
      | None \<Rightarrow> Inr (map_of (docs fs c) i))"

text \<open>\<open>collection(c).doc(i).set(data)\<close>\<close>

definition fs_doc_set :: "firestore \<Rightarrow> string \<Rightarrow> string \<Rightarrow> jsobj \<Rightarrow> error + firestore" where
  "fs_doc_set fs c i data =
     (case rejects fs c of
        Some e \<Rightarrow> Inl (StoreError e)
      | None \<Rightarrow> Inr (fs\<lparr>docs := (docs fs)(c := AList.update i (fs_encode_obj data) (docs fs c))\<rparr>))"



text \<open>
  The store orders values by type first (null, boolean, number, timestamp, string, ...),
  then by value; \<open>fs_key\<close> is that order as a key. Values of the other types are ordered
  by their type only, and \<open>JDateStr\<close> as a timestamp of instant 0.
\<close>

fun fs_key :: "jsval \<Rightarrow> nat \<times> int \<times> string" where
  "fs_key JNull = (0, 0, [])"
| "fs_key (JBool b) = (1, if b then 1 else 0, [])"
| "fs_key (JNum n) = (2, n, [])"
| "fs_key (JTimestamp t) = (3, t, [])"
| "fs_key (JDate t) = (3, t, [])"
| "fs_key (JDateStr s) = (3, 0, [])"
| "fs_key (JStr s) = (4, 0, s)"
| "fs_key (JArr xs) = (5, 0, [])"
| "fs_key (JObj kvs) = (6, 0, [])"
| "fs_key JUndefined = (0, 0, [])"

text \<open>
  A query \<open>collection(c).where(f1, "==", v1)...[.orderBy(f, "desc")][.limit(n)].get()\<close>,
  its result \<open>snapshot.docs\<close>. Without \<open>orderBy\<close> the store answers in ascending order of
  document id; with \<open>orderBy(f, "desc")\<close> it leaves out the documents that have no field
  \<open>f\<close> and answers in descending order of \<open>f\<close>, then of document id.
\<close>

definition matches :: "(string \<times> string) list \<Rightarrow> string \<times> jsobj \<Rightarrow> bool" where
  "matches wheres doc = list_all (\<lambda>w. map_of (snd doc) (fst w) = Some (JStr (snd w))) wheres"

definition fs_ordered :: "string option \<Rightarrow> (string \<times> jsobj) list \<Rightarrow> (string \<times> jsobj) list" where
  "fs_ordered orderBy ds =
     (case orderBy of
        None \<Rightarrow> sort_key fst ds
      | Some f \<Rightarrow>
          rev (sort_key (\<lambda>doc. (fs_key (get_prop (snd doc) f), fst doc))
                 (filter (\<lambda>doc. map_of (snd doc) f \<noteq> None) ds)))"

definition limited :: "nat option \<Rightarrow> 'a list \<Rightarrow> 'a list" where
  "limited lim xs = (case lim of None \<Rightarrow> xs | Some n \<Rightarrow> take n xs)"

definition fs_query ::
  "firestore \<Rightarrow> string \<Rightarrow> (string \<times> string) list \<Rightarrow> string option \<Rightarrow> nat option
   \<Rightarrow> error + (string \<times> jsobj) list" where
  "fs_query fs c wheres orderBy lim =
     (case rejects fs c of
        Some e \<Rightarrow> Inl (StoreError e)
      | None \<Rightarrow> Inr (limited lim (fs_ordered orderBy (filter (matches wheres) (docs fs c)))))"

section \<open>server/firebase-storage.ts: FirebaseStorage\<close>

text \<open>
  Every method takes the store and returns what it resolves to (\<open>Inr\<close>) or what it
  rejects with (\<open>Inl\<close>); a method that writes also returns the store it leaves. The
  results of \<open>generateId()\<close> and \<open>new Date()\<close> are the arguments \<open>newId\<close> and \<open>now\<close>.
  An entity or absent (\<open>T | undefined\<close>) is a \<open>jsobj option\<close>.
\<close>

text \<open>\<open>{ ...data, id: doc.id, f: toDate(data.f), ... }\<close> for the date fields \<open>f\<close> given\<close>

fun with_dates :: "jsobj \<Rightarrow> string list \<Rightarrow> jsobj \<Rightarrow> error + jsobj" where
  "with_dates data [] obj = Inr obj"
| "with_dates data (f # fs) obj =
     (case toDate (get_prop data f) of
        Inl e \<Rightarrow> Inl e
      | Inr d \<Rightarrow> with_dates data fs (set_prop obj f d))"

definition entity :: "string list \<Rightarrow> string \<times> jsobj \<Rightarrow> error + jsobj" where
  "entity dates doc = with_dates (snd doc) dates (set_prop (snd doc) ''id'' (JStr (fst doc)))"

text \<open>\<open>{ id: doc.id, ...doc.data() }\<close>\<close>

definition entity_id_first :: "string \<times> jsobj \<Rightarrow> jsobj" where
  "entity_id_first doc = spread [(''id'', JStr (fst doc))] (snd doc)"

text \<open>
  A call \<open>this.getX(obj.k)\<close> on a property: the store's client throws on a document id
  that is not a string.
\<close>

definition with_id :: "jsval \<Rightarrow> (string \<Rightarrow> error + 'a) \<Rightarrow> error + 'a" where
  "with_id v f = (case v of JStr i \<Rightarrow> f i | _ \<Rightarrow> Inl InvalidArgument)"

text \<open>
  The bodies that several methods share word for word, with the collection name and the
  date fields as arguments.
\<close>

text \<open>\<open>getProducts\<close>, \<open>getCoupons\<close>, \<open>getCustomers\<close>, \<open>getAbandonedCarts\<close>\<close>

definition fs_list :: "firestore \<Rightarrow> string \<Rightarrow> string list \<Rightarrow> string \<Rightarrow> error + jsobj list" where
  "fs_list fs c dates userId =
     catch5
       (bind_err (fs_query fs c [(''userId'', userId)] (Some ''createdAt'') None)
          (mapM (entity dates)))
       []"

text \<open>\<open>getProduct\<close>, \<open>getCoupon\<close>, \<open>getCustomer\<close>\<close>

definition fs_find :: "firestore \<Rightarrow> string \<Rightarrow> string list \<Rightarrow> string \<Rightarrow> error + jsobj option" where
  "fs_find fs c dates i =
     catch5
       (bind_err (fs_doc_get fs c i)
          (\<lambda>d. case d of
                  None \<Rightarrow> Inr None
                | Some data \<Rightarrow> bind_err (entity dates (i, data)) (\<lambda>e. Inr (Some e))))
       None"

text \<open>\<open>getCouponByCode\<close>, \<open>getCustomerByEmail\<close>\<close>

definition fs_find_by ::
  "firestore \<Rightarrow> string \<Rightarrow> string list \<Rightarrow> (string \<times> string) list \<Rightarrow> error + jsobj option" where
  "fs_find_by fs c dates wheres =
     catch5
       (bind_err (fs_query fs c wheres None (Some 1))
          (\<lambda>ds. case ds of
                   [] \<Rightarrow> Inr None
                 | doc # _ \<Rightarrow> bind_err (entity dates doc) (\<lambda>e. Inr (Some e))))
       None"

text \<open>
  \<open>createProduct\<close>, \<open>createCheckoutPage\<close>, \<open>createCoupon\<close>, \<open>createOrder\<close>,
  \<open>createOrderItem\<close>, \<open>createEmailTemplate\<close>, \<open>createPixelEvent\<close>, \<open>createAbandonedCart\<close>,
  \<open>createUser\<close>: store the serialized object, return the object.
\<close>

definition fs_create ::
  "firestore \<Rightarrow> string \<Rightarrow> string \<Rightarrow> jsobj \<Rightarrow> error + firestore \<times> jsobj" where
  "fs_create fs c newId withDefaults =
     bind_err (fs_doc_set fs c newId (serializeObj withDefaults)) (\<lambda>fs'. Inr (fs', withDefaults))"




subsection \<open>Users\<close>

definition FirebaseStorage_getUser :: "firestore \<Rightarrow> string \<Rightarrow> error + jsobj option" where
  "FirebaseStorage_getUser fs i =
     catch5
       (bind_err (fs_doc_get fs ''users'' i)
          (\<lambda>d. Inr (map_option (\<lambda>data. entity_id_first (i, data)) d)))
       None"

definition FirebaseStorage_getUserByEmail :: "firestore \<Rightarrow> string \<Rightarrow> error + jsobj option" where
  "FirebaseStorage_getUserByEmail fs email =
     catch5
       (bind_err (fs_query fs ''users'' [(''email'', email)] None (Some 1))
          (\<lambda>ds. case ds of [] \<Rightarrow> Inr None | doc # _ \<Rightarrow> Inr (Some (entity_id_first doc))))
       None"

definition FirebaseStorage_createUser ::
  "firestore \<Rightarrow> string \<Rightarrow> jsobj \<Rightarrow> error + firestore \<times> jsobj" where
  "FirebaseStorage_createUser fs newId user =
     fs_create fs ''users'' newId
       (spread user
          [(''id'', JStr newId),
           (''primaryColor'', nullish (get_prop user ''primaryColor'') (JStr ''#2563eb'')),
           (''domainVerified'', nullish (get_prop user ''domainVerified'') (JBool False))])"


subsection \<open>Products\<close>

definition FirebaseStorage_getProducts :: "firestore \<Rightarrow> string \<Rightarrow> error + jsobj list" where
  "FirebaseStorage_getProducts fs userId = fs_list fs ''products'' [''createdAt''] userId"

definition FirebaseStorage_getProduct :: "firestore \<Rightarrow> string \<Rightarrow> error + jsobj option" where
  "FirebaseStorage_getProduct fs i = fs_find fs ''products'' [''createdAt''] i"




subsection \<open>Checkout pages\<close>

text \<open>\<open>const product = await this.getProduct(page.productId); return { ...page, product };\<close>\<close>

definition attach_product :: "firestore \<Rightarrow> jsobj \<Rightarrow> error + jsobj" where
  "attach_product fs page =
     bind_err (with_id (get_prop page ''productId'') (FirebaseStorage_getProduct fs))
       (\<lambda>product. Inr (set_prop page ''product'' (opt product)))"

definition FirebaseStorage_getCheckoutPages :: "firestore \<Rightarrow> string \<Rightarrow> error + jsobj list" where
  "FirebaseStorage_getCheckoutPages fs userId =
     catch5
       (bind_err (fs_query fs ''checkoutPages'' [(''userId'', userId)] (Some ''createdAt'') None)
          (mapM (\<lambda>doc. bind_err (entity [''createdAt''] doc) (attach_product fs))))
       []"

definition FirebaseStorage_getCheckoutPage :: "firestore \<Rightarrow> string \<Rightarrow> error + jsobj option" where
  "FirebaseStorage_getCheckoutPage fs i =
     catch5
       (bind_err (fs_doc_get fs ''checkoutPages'' i)
          (\<lambda>d. case d of
                  None \<Rightarrow> Inr None
                | Some data \<Rightarrow>
                    bind_err (entity [''createdAt''] (i, data))
                      (\<lambda>page. bind_err (attach_product fs page) (\<lambda>e. Inr (Some e)))))
       None"

definition FirebaseStorage_getCheckoutPageBySlug :: "firestore \<Rightarrow> string \<Rightarrow> error + jsobj option" where
  "FirebaseStorage_getCheckoutPageBySlug fs slug =
     catch5
       (bind_err (fs_query fs ''checkoutPages'' [(''slug'', slug)] None (Some 1))
          (\<lambda>ds. case ds of
                   [] \<Rightarrow> Inr None
                 | doc # _ \<Rightarrow>
                     bind_err (entity [''createdAt''] doc)
                       (\<lambda>page. bind_err (attach_product fs page) (\<lambda>e. Inr (Some e)))))
       None"




subsection \<open>Coupons\<close>

definition FirebaseStorage_getCoupons :: "firestore \<Rightarrow> string \<Rightarrow> error + jsobj list" where
  "FirebaseStorage_getCoupons fs userId =
     fs_list fs ''coupons'' [''createdAt'', ''expiresAt''] userId"

definition FirebaseStorage_getCoupon :: "firestore \<Rightarrow> string \<Rightarrow> error + jsobj option" where
  "FirebaseStorage_getCoupon fs i = fs_find fs ''coupons'' [''createdAt'', ''expiresAt''] i"

definition FirebaseStorage_getCouponByCode ::
  "firestore \<Rightarrow> string \<Rightarrow> string \<Rightarrow> error + jsobj option" where
  "FirebaseStorage_getCouponByCode fs code userId =
     fs_find_by fs ''coupons'' [''createdAt'', ''expiresAt'']
       [(''code'', code), (''userId'', userId)]"




subsection \<open>Customers\<close>

definition FirebaseStorage_getCustomers :: "firestore \<Rightarrow> string \<Rightarrow> error + jsobj list" where
  "FirebaseStorage_getCustomers fs userId = fs_list fs ''customers'' [''createdAt''] userId"

definition FirebaseStorage_getCustomer :: "firestore \<Rightarrow> string \<Rightarrow> error + jsobj option" where
  "FirebaseStorage_getCustomer fs i = fs_find fs ''customers'' [''createdAt''] i"

definition FirebaseStorage_getCustomerByEmail ::
  "firestore \<Rightarrow> string \<Rightarrow> string \<Rightarrow> error + jsobj option" where
  "FirebaseStorage_getCustomerByEmail fs email userId =
     fs_find_by fs ''customers'' [''createdAt''] [(''email'', email), (''userId'', userId)]"



subsection \<open>Orders and order items\<close>

text \<open>
  In \<open>getOrders\<close> the \<open>Promise.all\<close> is returned without \<open>await\<close>, so only the first query
  is inside the \<open>try\<close>: a failure while the orders are completed reaches the caller.
\<close>

definition FirebaseStorage_getOrders :: "firestore \<Rightarrow> string \<Rightarrow> error + jsobj list" where
  "FirebaseStorage_getOrders fs userId =
     (case catch5
             (bind_err (fs_query fs ''orders'' [(''userId'', userId)] (Some ''createdAt'') None)
                (\<lambda>ds. Inr (Some ds)))
             None of
        Inl e \<Rightarrow> Inl e
      | Inr None \<Rightarrow> Inr []
      | Inr (Some ds) \<Rightarrow>
          mapM (\<lambda>doc.
                 bind_err (entity [''createdAt''] doc)
                   (\<lambda>order'.
                      bind_err (with_id (get_prop order' ''customerId'') (FirebaseStorage_getCustomer fs))
                        (\<lambda>customer.
                           bind_err (fs_query fs ''orderItems'' [(''orderId'', fst doc)] None None)
                             (\<lambda>itemDocs.
                                Inr (spread order'
                                       [(''customer'', opt customer),
                                        (''items'',
                                           JArr (map (\<lambda>itemDoc.
                                                       JObj (set_prop (snd itemDoc) ''id'' (JStr (fst itemDoc))))
                                                   itemDocs))])))))
            ds)"

definition FirebaseStorage_getOrderItems :: "firestore \<Rightarrow> string \<Rightarrow> error + jsobj list" where
  "FirebaseStorage_getOrderItems fs orderId =
     bind_err (fs_query fs ''orderItems'' [(''orderId'', orderId)] None None)
       (mapM (\<lambda>doc. bind_err (entity [''tokenExpiresAt''] doc) (attach_product fs)))"

definition FirebaseStorage_getOrder :: "firestore \<Rightarrow> string \<Rightarrow> error + jsobj option" where
  "FirebaseStorage_getOrder fs i =
     bind_err (fs_doc_get fs ''orders'' i)
       (\<lambda>d. case d of
               None \<Rightarrow> Inr None
             | Some data \<Rightarrow>
                 bind_err (entity [''createdAt''] (i, data))
                   (\<lambda>order'.
                      bind_err (with_id (get_prop order' ''customerId'') (FirebaseStorage_getCustomer fs))
                        (\<lambda>customer.
                           bind_err (FirebaseStorage_getOrderItems fs i)
                             (\<lambda>items.
                                Inr (Some (spread order'
                                             [(''customer'', opt customer),
                                              (''items'', JArr (map JObj items))]))))))"



definition FirebaseStorage_createOrderItem ::
  "firestore \<Rightarrow> string \<Rightarrow> jsobj \<Rightarrow> error + firestore \<times> jsobj" where
  "FirebaseStorage_createOrderItem fs newId item =
     fs_create fs ''orderItems'' newId
       (spread item
          [(''id'', JStr newId),
           (''itemType'', nullish (get_prop item ''itemType'') (JStr ''main'')),
           (''downloadCount'', nullish (get_prop item ''downloadCount'') (JNum 0))])"

subsection \<open>Email templates\<close>

definition FirebaseStorage_getEmailTemplates :: "firestore \<Rightarrow> string \<Rightarrow> error + jsobj list" where
  "FirebaseStorage_getEmailTemplates fs userId =
     catch5
       (bind_err (fs_query fs ''emailTemplates'' [(''userId'', userId)] None None)
          (\<lambda>ds. Inr (map (\<lambda>doc. set_prop (snd doc) ''id'' (JStr (fst doc))) ds)))
       []"

definition FirebaseStorage_getEmailTemplate :: "firestore \<Rightarrow> string \<Rightarrow> error + jsobj option" where
  "FirebaseStorage_getEmailTemplate fs i =
     bind_err (fs_doc_get fs ''emailTemplates'' i)
       (\<lambda>d. Inr (map_option (\<lambda>data. entity_id_first (i, data)) d))"




subsection \<open>Pixel events and abandoned carts\<close>


text \<open>\<open>getPixelEvents(userId, limit = 100)\<close>: \<open>None\<close> is a call without the second argument.\<close>

definition FirebaseStorage_getPixelEvents ::
  "firestore \<Rightarrow> string \<Rightarrow> nat option \<Rightarrow> error + jsobj list" where
  "FirebaseStorage_getPixelEvents fs userId limit =
     catch5
       (bind_err
          (fs_query fs ''pixelEvents'' [(''userId'', userId)] (Some ''createdAt'')
             (Some (case limit of None \<Rightarrow> 100 | Some n \<Rightarrow> n)))
          (mapM (entity [''createdAt'', ''eventTime''])))
       []"


definition FirebaseStorage_getAbandonedCarts :: "firestore \<Rightarrow> string \<Rightarrow> error + jsobj list" where
  "FirebaseStorage_getAbandonedCarts fs userId =
     fs_list fs ''abandonedCarts'' [''createdAt'', ''recoveredAt''] userId"


section \<open>shared/schema.ts: the relational schema\<close>

text \<open>
  A column as the table definitions declare it: its property name, whether it is
  \<open>notNull\<close>, its \<open>default\<close>, the table whose \<open>id\<close> it \<open>references\<close>, and whether it is the
  primary key or \<open>unique\<close>. The SQL type of a column is not modelled.
\<close>

datatype dflt = NoDefault | Default jsval | GenRandomUuid | DefaultNow

record column =
  cname :: string
  notNull :: bool
  dflt :: dflt
  references :: "string option"
  primaryKey :: bool
  unique :: bool

definition col :: "string \<Rightarrow> column" where
  "col n = \<lparr>cname = n, notNull = False, dflt = NoDefault, references = None,
            primaryKey = False, unique = False\<rparr>"

definition is_notNull :: "column \<Rightarrow> column" where
  "is_notNull c = c\<lparr>notNull := True\<rparr>"

definition with_default :: "jsval \<Rightarrow> column \<Rightarrow> column" where
  "with_default v c = c\<lparr>dflt := Default v\<rparr>"

definition defaultNow :: "column \<Rightarrow> column" where
  "defaultNow c = c\<lparr>dflt := DefaultNow\<rparr>"

definition is_unique :: "column \<Rightarrow> column" where
  "is_unique c = c\<lparr>unique := True\<rparr>"

definition referencing :: "string \<Rightarrow> column \<Rightarrow> column" where
  "referencing t c = c\<lparr>references := Some t\<rparr>"

text \<open>\<open>uuid("id").primaryKey().default(sql`gen_random_uuid()`)\<close>, the first column of every table\<close>

definition id_column :: column where
  "id_column = \<lparr>cname = ''id'', notNull = True, dflt = GenRandomUuid, references = None,
                primaryKey = True, unique = False\<rparr>"

definition users :: "column list" where
  "users =
     [id_column,
      is_unique (is_notNull (col ''email'')),
      is_notNull (col ''password''),
      col ''businessName'',
      col ''logoUrl'',
      with_default (JStr ''#2563eb'') (col ''primaryColor''),
      col ''facebookPixelId'',
      col ''facebookAccessToken'',
      col ''uddoktapayApiKey'',
      col ''uddoktapayApiUrl'',
      col ''sendgridApiKey'',
      col ''fromEmail'',
      col ''customDomain'',
      with_default (JBool False) (col ''domainVerified'')]"

definition products :: "column list" where
  "products =
     [id_column,
      referencing ''users'' (is_notNull (col ''userId'')),
      is_notNull (col ''name''),
      col ''description'',
      is_notNull (col ''price''),
      col ''compareAtPrice'',
      col ''imageUrl'',
      col ''fileUrl'',
      col ''fileName'',
      col ''fileSize'',
      with_default (JNum 5) (col ''downloadLimit''),
      with_default (JBool True) (col ''isActive''),
      defaultNow (col ''createdAt'')]"

definition checkoutPages :: "column list" where
  "checkoutPages =
     [id_column,
      referencing ''users'' (is_notNull (col ''userId'')),
      referencing ''products'' (is_notNull (col ''productId'')),
      is_notNull (col ''name''),
      is_notNull (col ''slug''),
      with_default (JStr ''publisher'') (col ''template''),
      with_default (JArr []) (col ''blocks''),
      with_default (JObj []) (col ''customStyles''),
      with_default (JBool False) (col ''isPublished''),
      defaultNow (col ''createdAt'')]"

definition orderBumps :: "column list" where
  "orderBumps =
     [id_column,
      referencing ''checkoutPages'' (is_notNull (col ''checkoutPageId'')),
      referencing ''products'' (is_notNull (col ''productId'')),
      is_notNull (col ''headline''),
      col ''description'',
      with_default (JStr ''fixed'') (col ''discountType''),
      with_default (JStr ''0'') (col ''discountValue''),
      with_default (JNum 0) (col ''position''),
      with_default (JBool True) (col ''isActive'')]"

definition upsells :: "column list" where
  "upsells =
     [id_column,
      referencing ''checkoutPages'' (is_notNull (col ''checkoutPageId'')),
      referencing ''products'' (is_notNull (col ''productId'')),
      is_notNull (col ''headline''),
      col ''description'',
      with_default (JStr ''fixed'') (col ''discountType''),
      with_default (JStr ''0'') (col ''discountValue''),
      with_default (JNum 0) (col ''position''),
      with_default (JBool True) (col ''isActive'')]"

definition coupons :: "column list" where
  "coupons =
     [id_column,
      referencing ''users'' (is_notNull (col ''userId'')),
      is_notNull (col ''code''),
      is_notNull (col ''discountType''),
      is_notNull (col ''discountValue''),
      col ''usageLimit'',
      with_default (JNum 0) (col ''usedCount''),
      col ''expiresAt'',
      with_default (JBool True) (col ''isActive''),
      defaultNow (col ''createdAt'')]"

definition customers :: "column list" where
  "customers =
     [id_column,
      referencing ''users'' (is_notNull (col ''userId'')),
      is_notNull (col ''email''),
      col ''firstName'',
      col ''lastName'',
      col ''phone'',
      col ''country'',
      defaultNow (col ''createdAt'')]"

definition orders :: "column list" where
  "orders =
     [id_column,
      referencing ''users'' (is_notNull (col ''userId'')),
      referencing ''customers'' (is_notNull (col ''customerId'')),
      referencing ''checkoutPages'' (col ''checkoutPageId''),
      with_default (JStr ''pending'') (col ''status''),
      is_notNull (col ''subtotal''),
      with_default (JStr ''0'') (col ''discount''),
      is_notNull (col ''total''),
      referencing ''coupons'' (col ''couponId''),
      col ''paymentMethod'',
      col ''transactionId'',
      col ''invoiceId'',
      col ''eventId'',
      col ''ipAddress'',
      col ''userAgent'',
      defaultNow (col ''createdAt'')]"

definition orderItems :: "column list" where
  "orderItems =
     [id_column,
      referencing ''orders'' (is_notNull (col ''orderId'')),
      referencing ''products'' (is_notNull (col ''productId'')),
      with_default (JStr ''main'') (col ''itemType''),
      is_notNull (col ''price''),
      with_default (JNum 0) (col ''downloadCount''),
      col ''downloadToken'',
      col ''tokenExpiresAt'']"

definition abandonedCarts :: "column list" where
  "abandonedCarts =
     [id_column,
      referencing ''users'' (is_notNull (col ''userId'')),
      referencing ''checkoutPages'' (is_notNull (col ''checkoutPageId'')),
      col ''email'',
      col ''cartData'',
      col ''ipAddress'',
      col ''userAgent'',
      with_default (JBool False) (col ''recoveryEmailSent''),
      col ''recoveredAt'',
      defaultNow (col ''createdAt'')]"

definition emailTemplates :: "column list" where
  "emailTemplates =
     [id_column,
      referencing ''users'' (is_notNull (col ''userId'')),
      is_notNull (col ''type''),
      is_notNull (col ''subject''),
      is_notNull (col ''body''),
      with_default (JBool True) (col ''isActive'')]"

definition pixelEvents :: "column list" where
  "pixelEvents =
     [id_column,
      referencing ''users'' (is_notNull (col ''userId'')),
      is_notNull (col ''eventName''),
      is_notNull (col ''eventId''),
      is_notNull (col ''eventTime''),
      col ''userData'',
      col ''customData'',
      with_default (JStr ''website'') (col ''actionSource''),
      with_default (JBool False) (col ''sentToServer''),
      defaultNow (col ''createdAt'')]"

definition schema :: "(string \<times> column list) list" where
  "schema =
     [(''users'', users), (''products'', products), (''checkoutPages'', checkoutPages),
      (''orderBumps'', orderBumps), (''upsells'', upsells), (''coupons'', coupons),
      (''customers'', customers), (''orders'', orders), (''orderItems'', orderItems),
      (''abandonedCarts'', abandonedCarts), (''emailTemplates'', emailTemplates),
      (''pixelEvents'', pixelEvents)]"



section \<open>The relational store\<close>

text \<open>
  A model of the engine behind \<open>db\<close>: for every table name its rows, oldest first; a row
  holds a value for every column of its table. The statements the methods build are
  \<open>insert ... returning\<close>, \<open>update ... set ... where id = i returning\<close>,
  \<open>delete ... where id = i returning\<close> and \<open>select ... where ... [order by createdAt desc]
  [limit n]\<close>. The engine enforces what the schema declares: \<open>notNull\<close>, the primary key,
  \<open>unique\<close> and \<open>references\<close> (with no action on delete or update, so a referenced row can
  neither go nor change its id).
\<close>

type_synonym database = "string \<Rightarrow> jsobj list"

definition columns :: "string \<Rightarrow> column list" where
  "columns t = (case map_of schema t of None \<Rightarrow> [] | Some cs \<Rightarrow> cs)"

text \<open>The value a column takes when the statement gives none.\<close>

definition default_value :: "string \<Rightarrow> int \<Rightarrow> column \<Rightarrow> jsval" where
  "default_value newId now c =
     (case dflt c of
        NoDefault \<Rightarrow> JNull
      | Default v \<Rightarrow> v
      | GenRandomUuid \<Rightarrow> JStr newId
      | DefaultNow \<Rightarrow> JDate now)"

text \<open>
  The first constraint of table \<open>t\<close> that \<open>row\<close> violates, if any, \<open>others\<close> being the
  other rows of the table.
\<close>

definition column_violation :: "database \<Rightarrow> jsobj list \<Rightarrow> jsobj \<Rightarrow> column \<Rightarrow> error option" where
  "column_violation db others row c =
     (let v = get_prop row (cname c) in
      if notNull c \<and> v = JNull then Some (NotNullViolation (cname c))
      else if (primaryKey c \<or> unique c) \<and> v \<noteq> JNull
               \<and> list_ex (\<lambda>r. get_prop r (cname c) = v) others
        then Some (UniqueViolation (cname c))
      else case references c of
             None \<Rightarrow> None
           | Some t' \<Rightarrow>
               if v \<noteq> JNull \<and> \<not> list_ex (\<lambda>r. get_prop r ''id'' = v) (db t')
                 then Some (ForeignKeyViolation (cname c))
               else None)"

definition row_violation :: "database \<Rightarrow> string \<Rightarrow> jsobj list \<Rightarrow> jsobj \<Rightarrow> error option" where
  "row_violation db t others row =
     (case List.map_filter (column_violation db others row) (columns t) of
        [] \<Rightarrow> None
      | e # _ \<Rightarrow> Some e)"


text \<open>
  \<open>const [created] = await db.insert(t).values(values).returning(); return created;\<close>
  A property that is \<open>undefined\<close> takes the column's default; \<open>returning()\<close> answers the
  one row inserted. \<open>newId\<close> and \<open>now\<close> are what \<open>gen_random_uuid()\<close> and \<open>now()\<close>
  give.
\<close>

definition db_insert ::
  "database \<Rightarrow> string \<Rightarrow> string \<Rightarrow> int \<Rightarrow> jsobj \<Rightarrow> error + database \<times> jsobj" where
  "db_insert db t newId now values =
     (let row = map (\<lambda>c. (cname c,
                           (if get_prop values (cname c) = JUndefined then default_value newId now c
                            else get_prop values (cname c))))
                  (columns t)
      in case row_violation db t (db t) row of
           Some e \<Rightarrow> Inl e
         | None \<Rightarrow> Inr (db(t := db t @ [row]), row))"





text \<open>
  \<open>db.select().from(t).where(eq(t.k, v))\<close>, and the same for two columns; null equals
  nothing.
\<close>

definition db_select :: "database \<Rightarrow> string \<Rightarrow> (string \<times> jsval) list \<Rightarrow> jsobj list" where
  "db_select db t wheres =
     filter (\<lambda>r. list_all (\<lambda>w. snd w \<noteq> JNull \<and> get_prop r (fst w) = snd w) wheres) (db t)"



text \<open>\<open>const [x] = await ...; return x;\<close>\<close>

definition first_row :: "jsobj list \<Rightarrow> jsobj option" where
  "first_row rows = (case rows of [] \<Rightarrow> None | r # _ \<Rightarrow> Some r)"

section \<open>server/storage.ts: DatabaseStorage\<close>

text \<open>The bodies the methods share, with the table name as argument.\<close>



text \<open>\<open>const [x] = await db.select().from(t).where(eq(t.id, id)); return x;\<close>\<close>

definition db_find :: "database \<Rightarrow> string \<Rightarrow> jsval \<Rightarrow> jsobj option" where
  "db_find db t i = first_row (db_select db t [(''id'', i)])"


subsection \<open>Users\<close>

definition DatabaseStorage_getUser :: "database \<Rightarrow> string \<Rightarrow> error + jsobj option" where
  "DatabaseStorage_getUser db i = Inr (db_find db ''users'' (JStr i))"

definition DatabaseStorage_getUserByEmail :: "database \<Rightarrow> string \<Rightarrow> error + jsobj option" where
  "DatabaseStorage_getUserByEmail db email =
     Inr (first_row (db_select db ''users'' [(''email'', JStr email)]))"

definition DatabaseStorage_createUser ::
  "database \<Rightarrow> string \<Rightarrow> int \<Rightarrow> jsobj \<Rightarrow> error + database \<times> jsobj" where
  "DatabaseStorage_createUser db newId now user = db_insert db ''users'' newId now user"


subsection \<open>Products\<close>






subsection \<open>Checkout pages\<close>

text \<open>
  \<open>const [product] = await db.select().from(products).where(eq(products.id, page.productId));
  return { ...page, product };\<close>
\<close>

definition db_attach_product :: "database \<Rightarrow> jsobj \<Rightarrow> jsobj" where
  "db_attach_product db row =
     set_prop row ''product'' (opt (db_find db ''products'' (get_prop row ''productId'')))"



definition DatabaseStorage_getCheckoutPageBySlug :: "database \<Rightarrow> string \<Rightarrow> error + jsobj option" where
  "DatabaseStorage_getCheckoutPageBySlug db slug =
     Inr (map_option (db_attach_product db)
            (first_row (db_select db ''checkoutPages'' [(''slug'', JStr slug)])))"




subsection \<open>Coupons\<close>



definition DatabaseStorage_getCouponByCode ::
  "database \<Rightarrow> string \<Rightarrow> string \<Rightarrow> error + jsobj option" where
  "DatabaseStorage_getCouponByCode db code userId =
     Inr (first_row (db_select db ''coupons'' [(''code'', JStr code), (''userId'', JStr userId)]))"




subsection \<open>Customers\<close>


definition DatabaseStorage_getCustomer :: "database \<Rightarrow> string \<Rightarrow> error + jsobj option" where
  "DatabaseStorage_getCustomer db i = Inr (db_find db ''customers'' (JStr i))"

definition DatabaseStorage_getCustomerByEmail ::
  "database \<Rightarrow> string \<Rightarrow> string \<Rightarrow> error + jsobj option" where
  "DatabaseStorage_getCustomerByEmail db email userId =
     Inr (first_row (db_select db ''customers'' [(''email'', JStr email), (''userId'', JStr userId)]))"



subsection \<open>Orders and order items\<close>


definition DatabaseStorage_getOrderItems :: "database \<Rightarrow> string \<Rightarrow> error + jsobj list" where
  "DatabaseStorage_getOrderItems db orderId =
     Inr (map (db_attach_product db) (db_select db ''orderItems'' [(''orderId'', JStr orderId)]))"

definition DatabaseStorage_getOrder :: "database \<Rightarrow> string \<Rightarrow> error + jsobj option" where
  "DatabaseStorage_getOrder db i =
     Inr (map_option
            (\<lambda>order'.
               spread order'
                 [(''customer'', opt (db_find db ''customers'' (get_prop order' ''customerId''))),
                  (''items'',
                     JArr (map (\<lambda>item. JObj (db_attach_product db item))
                             (db_select db ''orderItems''
                                [(''orderId'', get_prop order' ''id'')])))])
            (db_find db ''orders'' (JStr i)))"



definition DatabaseStorage_createOrderItem ::
  "database \<Rightarrow> string \<Rightarrow> int \<Rightarrow> jsobj \<Rightarrow> error + database \<times> jsobj" where
  "DatabaseStorage_createOrderItem db newId now item = db_insert db ''orderItems'' newId now item"

subsection \<open>Email templates\<close>

definition DatabaseStorage_getEmailTemplates :: "database \<Rightarrow> string \<Rightarrow> error + jsobj list" where
  "DatabaseStorage_getEmailTemplates db userId =
     Inr (db_select db ''emailTemplates'' [(''userId'', JStr userId)])"





subsection \<open>Pixel events and abandoned carts\<close>






section \<open>Coupon validation (server/routes.ts, POST /api/coupons/validate)\<close>

text \<open>
  The type \<open>Coupon\<close> is the row type of the \<open>coupons\<close> table (\<open>$inferSelect\<close>):
  the columns declared \<open>notNull\<close> are plain values, every other column is nullable
  (\<open>None\<close> is \<open>null\<close>). Timestamps are milliseconds since the epoch.
\<close>

record Coupon =
  id' :: string
  userId :: string
  code :: string
  discountType :: string
  discountValue :: string
  usageLimit :: "int option"
  usedCount :: "int option"
  expiresAt :: "int option"
  isActive :: "bool option"
  createdAt :: "int option"

text \<open>
  JavaScript truthiness at the three nullable types the handler tests: \<open>null\<close> is
  falsy, so are \<open>false\<close> and \<open>0\<close>; a \<open>Date\<close> object is truthy whatever its time.
\<close>

definition truthy_bool :: "bool option \<Rightarrow> bool" where
  "truthy_bool v = (case v of None \<Rightarrow> False | Some b \<Rightarrow> b)"

definition truthy_num :: "int option \<Rightarrow> bool" where
  "truthy_num v = (case v of None \<Rightarrow> False | Some n \<Rightarrow> n \<noteq> 0)"

definition truthy_date :: "int option \<Rightarrow> bool" where
  "truthy_date v = (case v of None \<Rightarrow> False | Some t \<Rightarrow> True)"

text \<open>
  \<open>a >= b\<close> on \<open>number | null\<close>: \<open>null\<close> converts to \<open>0\<close>.
\<close>

definition js_ge :: "int option \<Rightarrow> int option \<Rightarrow> bool" where
  "js_ge a b = (case_option 0 (\<lambda>n. n) a \<ge> case_option 0 (\<lambda>n. n) b)"

text \<open>
  The handler's answers: \<open>res.status(n).json({ error: msg })\<close> and \<open>res.json(coupon)\<close>.
\<close>

datatype response = Status nat string | Json Coupon

text \<open>
  The handler after \<open>storage.getCouponByCode(code, userId)\<close> has answered: \<open>coupon\<close>
  is its result (\<open>None\<close> is \<open>undefined\<close>), \<open>now\<close> is the clock read by \<open>new Date()\<close>.
\<close>

definition coupons_validate :: "Coupon option \<Rightarrow> int \<Rightarrow> response" where
  "coupons_validate coupon now =
     (case coupon of
        None \<Rightarrow> Status 404 ''Coupon not found''
      | Some c \<Rightarrow>
          if \<not> truthy_bool (isActive c) then Status 400 ''Coupon is inactive''
          else if truthy_num (usageLimit c) \<and> truthy_num (usedCount c)
                  \<and> js_ge (usedCount c) (usageLimit c)
            then Status 400 ''Coupon usage limit reached''
          else if truthy_date (expiresAt c) \<and> the (expiresAt c) < now
            then Status 400 ''Coupon has expired''
          else Json c)"

text \<open>
  The rules as section 4.5 of the specification words them, for comparison with the
  handler: inactive when \<open>isActive\<close> is false, limit reached when \<open>usageLimit\<close> is set
  and \<open>usedCount >= usageLimit\<close>, expired when \<open>expiresAt\<close> is set and in the past.
\<close>

definition spec_coupons_validate :: "Coupon option \<Rightarrow> int \<Rightarrow> response" where
  "spec_coupons_validate coupon now =
     (case coupon of
        None \<Rightarrow> Status 404 ''Coupon not found''
      | Some c \<Rightarrow>
          if isActive c = Some False then Status 400 ''Coupon is inactive''
          else if usageLimit c \<noteq> None \<and> js_ge (usedCount c) (usageLimit c)
            then Status 400 ''Coupon usage limit reached''
          else if (case expiresAt c of None \<Rightarrow> False | Some t \<Rightarrow> t < now)
            then Status 400 ''Coupon has expired''
          else Json c)"

text \<open>
  The two guards as the handler evaluates them: the usage limit is hit only when both
  counters are set and non-zero; a coupon is past its expiry when \<open>expiresAt\<close> is set and
  earlier than the clock.
\<close>

definition limit_hit :: "Coupon \<Rightarrow> bool" where
  "limit_hit c =
     (case (usageLimit c, usedCount c) of
        (Some l, Some u) \<Rightarrow> l \<noteq> 0 \<and> u \<noteq> 0 \<and> u \<ge> l
      | _ \<Rightarrow> False)"

definition past :: "Coupon \<Rightarrow> int \<Rightarrow> bool" where
  "past c now = (case expiresAt c of None \<Rightarrow> False | Some t \<Rightarrow> t < now)"

section \<open>Vocabulary of the statements\<close>



text \<open>
  The creation times of a listing, in the order of the listing (the entities whose
  \<open>createdAt\<close> is a date), and the listing being ordered most recent first.
\<close>

definition created :: "jsobj \<Rightarrow> int option" where
  "created e = (case get_prop e ''createdAt'' of JDate t \<Rightarrow> Some t | _ \<Rightarrow> None)"

definition creation_times :: "jsobj list \<Rightarrow> int list" where
  "creation_times es = List.map_filter created es"

definition newest_first :: "jsobj list \<Rightarrow> bool" where
  "newest_first es = sorted_wrt (\<lambda>a b. a \<ge> b) (creation_times es)"




section \<open>Sample data\<close>

definition zero_limit_coupon :: Coupon where
  "zero_limit_coupon =
     \<lparr>id' = ''c1'', userId = ''u1'', code = ''SAVE10'', discountType = ''fixed'',
      discountValue = ''5.00'', usageLimit = Some 0, usedCount = Some 0, expiresAt = None,
      isActive = Some True, createdAt = Some 1000\<rparr>"

definition stale_coupon :: Coupon where
  "stale_coupon =
     \<lparr>id' = ''c2'', userId = ''u1'', code = ''OLD'', discountType = ''percentage'',
      discountValue = ''10.00'', usageLimit = Some 1, usedCount = Some 1, expiresAt = Some 500,
      isActive = Some False, createdAt = Some 100\<rparr>"














definition fs_unprovisioned :: firestore where
  "fs_unprovisioned = \<lparr>docs = (\<lambda>c. []), rejects = (\<lambda>c. Some 5)\<rparr>"


section \<open>Objects, documents and rows: basic facts\<close>

lemma get_prop_Nil [simp]: "get_prop [] k = JUndefined"
  by (simp add: get_prop_def)

lemma get_prop_Cons [simp]:
  "get_prop (kv # obj) k = (if fst kv = k then snd kv else get_prop obj k)"
  by (cases kv) (simp add: get_prop_def)

lemma get_prop_set_prop [simp]:
  "get_prop (set_prop obj k v) k' = (if k' = k then v else get_prop obj k')"
  by (simp add: get_prop_def set_prop_def update_conv')

lemma own_Nil [simp]: "own [] = []"
  by (simp add: own_def)

lemma own_Cons [simp]: "own (kv # obj) = kv # own (AList.delete (fst kv) obj)"
  by (simp add: own_def)

lemma map_of_own [simp]: "map_of (own obj) = map_of obj"
  by (simp add: own_def map_of_clearjunk)

lemma get_prop_own [simp]: "get_prop (own obj) k = get_prop obj k"
  by (simp add: get_prop_def)

lemma distinct_own [simp]: "distinct (map fst (own obj))"
  by (simp add: own_def distinct_clearjunk)

lemma keys_own [simp]: "fst ` set (own obj) = fst ` set obj"
  by (simp add: own_def dom_clearjunk)

lemma spread_Nil [simp]: "spread a [] = a"
  by (simp add: spread_def)

lemma spread_Cons [simp]:
  "spread a (kv # b) = spread (set_prop a (fst kv) (snd kv)) (AList.delete (fst kv) b)"
  by (simp add: spread_def set_prop_def)






lemma get_prop_undefined_iff: "get_prop obj k \<noteq> JUndefined \<Longrightarrow> k \<in> fst ` set obj"
  by (auto simp: get_prop_def split: option.splits dest: map_of_SomeD intro: rev_image_eqI)




lemma serializeForFirestore_defined [simp]:
  "serializeForFirestore v = JUndefined \<longleftrightarrow> v = JUndefined"
  by (cases v) auto

lemma fs_encode_defined [simp]: "fs_encode v = JUndefined \<longleftrightarrow> v = JUndefined"
  by (cases v) auto

lemma get_prop_fs_encode_obj [simp]:
  "get_prop (fs_encode_obj obj) k = fs_encode (get_prop obj k)"
  by (induction obj) (auto simp: fs_encode_obj_def)














section \<open>Listings: order\<close>




lemma toDate_JDate: "toDate v = Inr (JDate t) \<longleftrightarrow> v = JDate t \<or> v = JTimestamp t"
  by (cases v) (auto split: if_splits)









lemma newest_first_Nil [simp]: "newest_first []"
  by (simp add: newest_first_def creation_times_def map_filter_simps)






lemma created_set_prop [simp]: "k \<noteq> ''createdAt'' \<Longrightarrow> created (set_prop e k v) = created e"
  by (simp add: created_def)








lemma db_attach_product_created [simp]: "created (db_attach_product db r) = created r"
  by (simp add: db_attach_product_def)



















section \<open>Coupon validation: the order of the rules\<close>

text \<open>
  C1, as the specification words it: the rules are evaluated in the order not found,
  inactive, limit reached, expired, where limit reached means that \<open>usageLimit\<close> is set
  and \<open>usedCount >= usageLimit\<close>. The handler differs from these words on a coupon whose
  \<open>usageLimit\<close> is 0: it is active, its limit is set and reached (0 >= 0), and the
  handler accepts it.
\<close>

theorem coupons_validate_spec_counterexample:
  "coupons_validate (Some zero_limit_coupon) 2000 = Json zero_limit_coupon
   \<and> spec_coupons_validate (Some zero_limit_coupon) 2000 = Status 400 ''Coupon usage limit reached''"
  by (simp add: coupons_validate_def spec_coupons_validate_def zero_limit_coupon_def
      truthy_bool_def truthy_num_def truthy_date_def js_ge_def)

text \<open>
  C1, amended: the handler answers not found when the lookup found no coupon; otherwise
  inactive when \<open>isActive\<close> is not true (false or null); otherwise limit reached when
  \<open>usageLimit\<close> and \<open>usedCount\<close> are both set and non-zero and \<open>usedCount >= usageLimit\<close>;
  otherwise expired when \<open>expiresAt\<close> is set and earlier than the clock; otherwise it
  returns the coupon. So a coupon that is both inactive and expired is answered inactive.
\<close>

theorem coupons_validate_order:
  "coupons_validate None now = Status 404 ''Coupon not found''
   \<and> (isActive c \<noteq> Some True \<longrightarrow>
        coupons_validate (Some c) now = Status 400 ''Coupon is inactive'')
   \<and> (isActive c = Some True \<and> limit_hit c \<longrightarrow>
        coupons_validate (Some c) now = Status 400 ''Coupon usage limit reached'')
   \<and> (isActive c = Some True \<and> \<not> limit_hit c \<and> past c now \<longrightarrow>
        coupons_validate (Some c) now = Status 400 ''Coupon has expired'')
   \<and> (isActive c = Some True \<and> \<not> limit_hit c \<and> \<not> past c now \<longrightarrow>
        coupons_validate (Some c) now = Json c)"
  by (auto simp: coupons_validate_def truthy_bool_def truthy_num_def truthy_date_def js_ge_def
      limit_hit_def past_def split: option.splits)

theorem coupons_validate_order_witness:
  "coupons_validate (Some stale_coupon) 2000 = Status 400 ''Coupon is inactive''
   \<and> coupons_validate (Some (stale_coupon\<lparr>isActive := Some True\<rparr>)) 2000
       = Status 400 ''Coupon usage limit reached''
   \<and> coupons_validate (Some (stale_coupon\<lparr>isActive := Some True, usedCount := Some 0\<rparr>)) 2000
       = Status 400 ''Coupon has expired''
   \<and> coupons_validate (Some zero_limit_coupon) 2000 = Json zero_limit_coupon"
  using coupons_validate_order [where c = stale_coupon and now = 2000]
    coupons_validate_order [where c = "stale_coupon\<lparr>isActive := Some True\<rparr>" and now = 2000]
    coupons_validate_order
      [where c = "stale_coupon\<lparr>isActive := Some True, usedCount := Some 0\<rparr>" and now = 2000]
    coupons_validate_order [where c = zero_limit_coupon and now = 2000]
  by (simp add: stale_coupon_def zero_limit_coupon_def limit_hit_def past_def)

text \<open>
  C9: the usage-limit rule fires only when \<open>usageLimit\<close> and \<open>usedCount\<close> are both set and
  non-zero (and \<open>usedCount >= usageLimit\<close>). So a coupon whose \<open>usageLimit\<close> is 0, or whose
  \<open>usedCount\<close> is 0 or null, is never answered limit reached, whatever the other field.
\<close>

theorem limit_guard:
  "(coupons_validate coupon now = Status 400 ''Coupon usage limit reached'' \<longrightarrow>
      (\<exists>c l u. coupon = Some c \<and> usageLimit c = Some l \<and> l \<noteq> 0
         \<and> usedCount c = Some u \<and> u \<noteq> 0 \<and> u \<ge> l))
   \<and> (usageLimit c = Some 0 \<or> usedCount c = Some 0 \<or> usedCount c = None \<longrightarrow>
        coupons_validate (Some c) now \<noteq> Status 400 ''Coupon usage limit reached'')"
  by (auto simp: coupons_validate_def truthy_bool_def truthy_num_def truthy_date_def js_ge_def
       split: option.splits if_splits)

theorem limit_guard_witness:
  "coupons_validate (Some (stale_coupon\<lparr>isActive := Some True\<rparr>)) 2000
     = Status 400 ''Coupon usage limit reached''
   \<and> usageLimit (stale_coupon\<lparr>isActive := Some True\<rparr>) = Some 1
   \<and> usedCount (stale_coupon\<lparr>isActive := Some True\<rparr>) = Some 1
   \<and> usageLimit (zero_limit_coupon\<lparr>usedCount := Some 7\<rparr>) = Some 0
   \<and> coupons_validate (Some (zero_limit_coupon\<lparr>usedCount := Some 7\<rparr>)) 2000
       \<noteq> Status 400 ''Coupon usage limit reached''"
proof -
  have hit: "coupons_validate (Some (stale_coupon\<lparr>isActive := Some True\<rparr>)) 2000
      = Status 400 ''Coupon usage limit reached''"
    by (simp add: coupons_validate_def stale_coupon_def truthy_bool_def truthy_num_def js_ge_def)
  show ?thesis
    using hit limit_guard [where coupon = "Some (stale_coupon\<lparr>isActive := Some True\<rparr>)"
        and now = 2000 and c = "zero_limit_coupon\<lparr>usedCount := Some 7\<rparr>"]
    by (simp add: stale_coupon_def zero_limit_coupon_def)
qed

section \<open>Default hydration on create\<close>










section \<open>Delete\<close>











section \<open>Listings are ordered by creation time, most recent first\<close>




section \<open>The limit of the pixel event listing\<close>





section \<open>The store's not-found error on the read paths\<close>

lemma fs_doc_get_rejected: "rejects fs c = Some e \<Longrightarrow> fs_doc_get fs c i = Inl (StoreError e)"
  by (simp add: fs_doc_get_def)

lemma fs_query_rejected:
  "rejects fs c = Some e \<Longrightarrow> fs_query fs c wheres orderBy lim = Inl (StoreError e)"
  by (simp add: fs_query_def)

lemma catch5_rejected [simp]: "catch5 (bind_err (Inl (StoreError 5)) f) d = Inr d"
  by (simp add: catch5_def bind_err_def)

text \<open>
  C3: on a read path of the document backend, an error of the store with code 5 becomes
  an empty sequence or an absent value. It does on seventeen paths; \<open>getOrder\<close>,
  \<open>getOrderItems\<close> and \<open>getEmailTemplate\<close> have no \<open>try\<close> and reject with the error.
\<close>

theorem collection_not_found_paths:
  "(rejects fs ''orders'' = Some 5 \<longrightarrow> FirebaseStorage_getOrder fs i = Inl (StoreError 5))
   \<and> (rejects fs ''orderItems'' = Some 5 \<longrightarrow>
        FirebaseStorage_getOrderItems fs i = Inl (StoreError 5))
   \<and> (rejects fs ''emailTemplates'' = Some 5 \<longrightarrow>
        FirebaseStorage_getEmailTemplate fs i = Inl (StoreError 5))
   \<and> (rejects fs ''users'' = Some 5 \<longrightarrow>
        FirebaseStorage_getUser fs i = Inr None \<and> FirebaseStorage_getUserByEmail fs x = Inr None)
   \<and> (rejects fs ''products'' = Some 5 \<longrightarrow>
        FirebaseStorage_getProducts fs u = Inr [] \<and> FirebaseStorage_getProduct fs i = Inr None)
   \<and> (rejects fs ''checkoutPages'' = Some 5 \<longrightarrow>
        FirebaseStorage_getCheckoutPages fs u = Inr []
        \<and> FirebaseStorage_getCheckoutPage fs i = Inr None
        \<and> FirebaseStorage_getCheckoutPageBySlug fs x = Inr None)
   \<and> (rejects fs ''coupons'' = Some 5 \<longrightarrow>
        FirebaseStorage_getCoupons fs u = Inr [] \<and> FirebaseStorage_getCoupon fs i = Inr None
        \<and> FirebaseStorage_getCouponByCode fs x u = Inr None)
   \<and> (rejects fs ''customers'' = Some 5 \<longrightarrow>
        FirebaseStorage_getCustomers fs u = Inr [] \<and> FirebaseStorage_getCustomer fs i = Inr None
        \<and> FirebaseStorage_getCustomerByEmail fs x u = Inr None)
   \<and> (rejects fs ''orders'' = Some 5 \<longrightarrow> FirebaseStorage_getOrders fs u = Inr [])
   \<and> (rejects fs ''emailTemplates'' = Some 5 \<longrightarrow> FirebaseStorage_getEmailTemplates fs u = Inr [])
   \<and> (rejects fs ''pixelEvents'' = Some 5 \<longrightarrow> FirebaseStorage_getPixelEvents fs u lim = Inr [])
   \<and> (rejects fs ''abandonedCarts'' = Some 5 \<longrightarrow> FirebaseStorage_getAbandonedCarts fs u = Inr [])"
proof (intro conjI impI)
  assume "rejects fs ''orders'' = Some 5"
  then show "FirebaseStorage_getOrder fs i = Inl (StoreError 5)"
    by (simp add: FirebaseStorage_getOrder_def fs_doc_get_rejected bind_err_def)
next
  assume "rejects fs ''orderItems'' = Some 5"
  then show "FirebaseStorage_getOrderItems fs i = Inl (StoreError 5)"
    by (simp add: FirebaseStorage_getOrderItems_def fs_query_rejected bind_err_def)
next
  assume "rejects fs ''emailTemplates'' = Some 5"
  then show "FirebaseStorage_getEmailTemplate fs i = Inl (StoreError 5)"
    by (simp add: FirebaseStorage_getEmailTemplate_def fs_doc_get_rejected bind_err_def)
next
  assume "rejects fs ''users'' = Some 5"
  then show "FirebaseStorage_getUser fs i = Inr None" "FirebaseStorage_getUserByEmail fs x = Inr None"
    by (simp_all add: FirebaseStorage_getUser_def FirebaseStorage_getUserByEmail_def
        fs_doc_get_rejected fs_query_rejected)
next
  assume "rejects fs ''products'' = Some 5"
  then show "FirebaseStorage_getProducts fs u = Inr []" "FirebaseStorage_getProduct fs i = Inr None"
    by (simp_all add: FirebaseStorage_getProducts_def FirebaseStorage_getProduct_def fs_list_def
        fs_find_def fs_doc_get_rejected fs_query_rejected)
next
  assume "rejects fs ''checkoutPages'' = Some 5"
  then show "FirebaseStorage_getCheckoutPages fs u = Inr []"
    "FirebaseStorage_getCheckoutPage fs i = Inr None"
    "FirebaseStorage_getCheckoutPageBySlug fs x = Inr None"
    by (simp_all add: FirebaseStorage_getCheckoutPages_def FirebaseStorage_getCheckoutPage_def
        FirebaseStorage_getCheckoutPageBySlug_def fs_doc_get_rejected fs_query_rejected)
next
  assume "rejects fs ''coupons'' = Some 5"
  then show "FirebaseStorage_getCoupons fs u = Inr []" "FirebaseStorage_getCoupon fs i = Inr None"
    "FirebaseStorage_getCouponByCode fs x u = Inr None"
    by (simp_all add: FirebaseStorage_getCoupons_def FirebaseStorage_getCoupon_def
        FirebaseStorage_getCouponByCode_def fs_list_def fs_find_def fs_find_by_def
        fs_doc_get_rejected fs_query_rejected)
next
  assume "rejects fs ''customers'' = Some 5"
  then show "FirebaseStorage_getCustomers fs u = Inr []"
    "FirebaseStorage_getCustomer fs i = Inr None"
    "FirebaseStorage_getCustomerByEmail fs x u = Inr None"
    by (simp_all add: FirebaseStorage_getCustomers_def FirebaseStorage_getCustomer_def
        FirebaseStorage_getCustomerByEmail_def fs_list_def fs_find_def fs_find_by_def
        fs_doc_get_rejected fs_query_rejected)
next
  assume "rejects fs ''orders'' = Some 5"
  then show "FirebaseStorage_getOrders fs u = Inr []"
    by (simp add: FirebaseStorage_getOrders_def fs_query_rejected)
next
  assume "rejects fs ''emailTemplates'' = Some 5"
  then show "FirebaseStorage_getEmailTemplates fs u = Inr []"
    by (simp add: FirebaseStorage_getEmailTemplates_def fs_query_rejected)
next
  assume "rejects fs ''pixelEvents'' = Some 5"
  then show "FirebaseStorage_getPixelEvents fs u lim = Inr []"
    by (simp add: FirebaseStorage_getPixelEvents_def fs_query_rejected)
next
  assume "rejects fs ''abandonedCarts'' = Some 5"
  then show "FirebaseStorage_getAbandonedCarts fs u = Inr []"
    by (simp add: FirebaseStorage_getAbandonedCarts_def fs_list_def fs_query_rejected)
qed

theorem collection_not_found_paths_witness:
  "FirebaseStorage_getOrder fs_unprovisioned ''o1'' = Inl (StoreError 5)
   \<and> FirebaseStorage_getOrderItems fs_unprovisioned ''o1'' = Inl (StoreError 5)
   \<and> FirebaseStorage_getEmailTemplate fs_unprovisioned ''t1'' = Inl (StoreError 5)
   \<and> FirebaseStorage_getUser fs_unprovisioned ''u1'' = Inr None
   \<and> FirebaseStorage_getProducts fs_unprovisioned ''u1'' = Inr []
   \<and> FirebaseStorage_getProduct fs_unprovisioned ''p1'' = Inr None
   \<and> FirebaseStorage_getCheckoutPage fs_unprovisioned ''g1'' = Inr None
   \<and> FirebaseStorage_getCouponByCode fs_unprovisioned ''SAVE10'' ''u1'' = Inr None
   \<and> FirebaseStorage_getCustomers fs_unprovisioned ''u1'' = Inr []
   \<and> FirebaseStorage_getOrders fs_unprovisioned ''u1'' = Inr []
   \<and> FirebaseStorage_getEmailTemplates fs_unprovisioned ''u1'' = Inr []
   \<and> FirebaseStorage_getPixelEvents fs_unprovisioned ''u1'' None = Inr []
   \<and> FirebaseStorage_getAbandonedCarts fs_unprovisioned ''u1'' = Inr []"
proof -
  have r: "rejects fs_unprovisioned c = Some 5" for c
    by (simp add: fs_unprovisioned_def)
  note t = collection_not_found_paths [where fs = fs_unprovisioned and u = "''u1''"]
  show ?thesis
    using t [where i = "''o1''" and x = "''SAVE10''" and lim = None]
      t [where i = "''t1''" and x = "''SAVE10''" and lim = None]
      t [where i = "''u1''" and x = "''SAVE10''" and lim = None]
      t [where i = "''p1''" and x = "''SAVE10''" and lim = None]
      t [where i = "''g1''" and x = "''SAVE10''" and lim = None]
    by (simp add: r)
qed

section \<open>The owner of an entity\<close>

lemma fs_create_spec:
  "fs_create fs c newId obj = Inr (fs', r) \<Longrightarrow>
   r = obj \<and> rejects fs c = None \<and> rejects fs' = rejects fs
   \<and> (\<forall>c'. c' \<noteq> c \<longrightarrow> docs fs' c' = docs fs c')"
  by (auto simp: fs_create_def fs_doc_set_def bind_err_def split: option.splits)

lemma fs_doc_get_empty: "rejects fs c = None \<Longrightarrow> docs fs c = [] \<Longrightarrow> fs_doc_get fs c i = Inr None"
  by (simp add: fs_doc_get_def)







section \<open>Update\<close>



lemma keys_fs_encode_obj [simp]: "fst ` set (fs_encode_obj obj) = fst ` set obj"
  by (force simp: fs_encode_obj_def)




























end
